theory Spec2Isabelle
  imports Main "HOL-Library.Word" "HOL-Library.Char_ord" "HOL-Library.List_Lexorder"
    "HOL-Library.Multiset"
begin

section \<open>JavaScript values\<close>

text \<open>
  The signing proxy is JavaScript: its parameter mappings, error objects and
  response bodies are plain objects read by property name. A value is modelled
  by \<open>jsval\<close>; an object is the list of its own enumerable string-keyed
  properties in the order \<^verbatim>\<open>Object.keys\<close> reports them (for keys that are not
  array indices this is insertion order). A string is the list of its code
  units; the model covers code units below 256, which includes every key and
  literal of the source; on them the order of code units used by
  \<^verbatim>\<open>Array.prototype.sort\<close> is the order of the encoded bytes. A number is an
  integer of magnitude below \<open>10\<^sup>2\<^sup>1\<close>, which \<^verbatim>\<open>String\<close> renders in plain
  decimal (\<^verbatim>\<open>Date.now()\<close>, status codes, upstream error codes); fractional
  numbers are outside the model.
\<close>

datatype jsval =
    JUndefined
  | JNull
  | JBool bool
  | JNum int
  | JStr string
  | JObj "(string \<times> jsval) list"

type_synonym jsobject = "(string \<times> jsval) list"

text \<open>Truthiness, as tested by \<^verbatim>\<open>if\<close>, \<^verbatim>\<open>!\<close>, \<^verbatim>\<open>&&\<close> and \<^verbatim>\<open>||\<close>.\<close>

fun truthy :: "jsval \<Rightarrow> bool" where
  "truthy JUndefined = False"
| "truthy JNull = False"
| "truthy (JBool b) = b"
| "truthy (JNum n) = (n \<noteq> 0)"
| "truthy (JStr s) = (s \<noteq> [])"
| "truthy (JObj kvs) = True"

text \<open>\<^verbatim>\<open>a || b\<close>: the left operand when it is truthy, the right one otherwise.\<close>

definition js_or :: "jsval \<Rightarrow> jsval \<Rightarrow> jsval" where
  "js_or a b = (if truthy a then a else b)"

text \<open>
  Property read, for the property names the source reads (\<^verbatim>\<open>response\<close>,
  \<^verbatim>\<open>data\<close>, \<^verbatim>\<open>status\<close>, \<^verbatim>\<open>code\<close>, \<^verbatim>\<open>msg\<close>, \<^verbatim>\<open>message\<close> and the
  parameter keys). \<^verbatim>\<open>o.k\<close> on an object without \<^verbatim>\<open>k\<close>, or on a primitive,
  is \<^verbatim>\<open>undefined\<close>; \<^verbatim>\<open>o?.k\<close> on \<^verbatim>\<open>null\<close> or \<^verbatim>\<open>undefined\<close> is
  \<^verbatim>\<open>undefined\<close>. Every plain read of the source that is modelled here is on a
  value already tested truthy (or on the error object itself, which is never
  \<^verbatim>\<open>null\<close>), so the \<^verbatim>\<open>TypeError\<close> of a plain read on \<^verbatim>\<open>null\<close> does not arise.
\<close>

fun js_get :: "jsval \<Rightarrow> string \<Rightarrow> jsval" where
  "js_get (JObj kvs) k = (case map_of kvs k of Some v \<Rightarrow> v | None \<Rightarrow> JUndefined)"
| "js_get v k = JUndefined"

text \<open>\<^verbatim>\<open>Object.keys(o)\<close>.\<close>

definition keys :: "jsobject \<Rightarrow> string list" where
  "keys obj = map fst obj"

text \<open>
  Assignment \<^verbatim>\<open>o.k = v\<close> (and the trailing property of \<^verbatim>\<open>{...o, k: v}\<close>):
  an existing property keeps its position and takes the new value, a new one
  is added last.
\<close>

definition set_prop :: "jsobject \<Rightarrow> string \<Rightarrow> jsval \<Rightarrow> jsobject" where
  "set_prop obj k v =
     (if k \<in> set (keys obj)
      then map (\<lambda>(k', v'). if k' = k then (k', v) else (k', v')) obj
      else obj @ [(k, v)])"

text \<open>\<^verbatim>\<open>Array.prototype.join\<close> on strings.\<close>

fun join :: "string \<Rightarrow> string list \<Rightarrow> string" where
  "join sep [] = []"
| "join sep [x] = x"
| "join sep (x # y # ys) = x @ sep @ join sep (y # ys)"

subsection \<open>Rendering values as text\<close>

fun digits :: "nat \<Rightarrow> string" where
  "digits n =
     (if n < 10 then [''0123456789'' ! n]
      else digits (n div 10) @ [''0123456789'' ! (n mod 10)])"

declare digits.simps [simp del]

text \<open>\<^verbatim>\<open>String(v)\<close>, as applied by \<^verbatim>\<open>encodeURIComponent\<close> and template literals.\<close>

fun toString :: "jsval \<Rightarrow> string" where
  "toString JUndefined = ''undefined''"
| "toString JNull = ''null''"
| "toString (JBool b) = (if b then ''true'' else ''false'')"
| "toString (JNum n) = (if n < 0 then ''-'' @ digits (nat (- n)) else digits (nat n))"
| "toString (JStr s) = s"
| "toString (JObj kvs) = ''[object Object]''"

text \<open>
  \<^verbatim>\<open>encodeURIComponent\<close>: letters, digits and \<^verbatim>\<open>- _ . ! ~ * ' ( )\<close> are kept;
  every other code unit is replaced by the percent-encoded bytes of its UTF-8
  form, in upper-case hexadecimal.
\<close>

definition unreserved_chars :: string where
  "unreserved_chars =
     ''ABCDEFGHIJKLMNOPQRSTUVWXYZabcdefghijklmnopqrstuvwxyz0123456789-_.!~*()'' @ [CHR 0x27]"

definition unreserved :: "char \<Rightarrow> bool" where
  "unreserved c \<longleftrightarrow> c \<in> set unreserved_chars"

definition hex_upper :: string where
  "hex_upper = ''0123456789ABCDEF''"

definition utf8 :: "nat \<Rightarrow> nat list" where
  "utf8 n = (if n < 128 then [n] else [192 + n div 64, 128 + n mod 64])"

definition percent :: "nat \<Rightarrow> string" where
  "percent b = [CHR ''%'', hex_upper ! (b div 16), hex_upper ! (b mod 16)]"

definition encode_char :: "char \<Rightarrow> string" where
  "encode_char c = (if unreserved c then [c] else concat (map percent (utf8 (of_char c))))"

definition encodeURIComponent :: "jsval \<Rightarrow> string" where
  "encodeURIComponent v = concat (map encode_char (toString v))"

text \<open>\<^verbatim>\<open>String.prototype.toLowerCase\<close> on code units below 256.\<close>

definition lower_char :: "char \<Rightarrow> char" where
  "lower_char c =
     (let n = (of_char c :: nat)
      in if (65 \<le> n \<and> n \<le> 90) \<or> (192 \<le> n \<and> n \<le> 222 \<and> n \<noteq> 215)
         then char_of (n + 32) else c)"

definition toLowerCase :: "string \<Rightarrow> string" where
  "toLowerCase s = map lower_char s"

text \<open>\<^verbatim>\<open>Buffer\<close> bytes rendered by \<^verbatim>\<open>digest('hex')\<close>: two lower-case digits a byte.\<close>

definition hex_lower :: string where
  "hex_lower = ''0123456789abcdef''"

definition hex_byte :: "8 word \<Rightarrow> string" where
  "hex_byte b = [hex_lower ! (unat b div 16), hex_lower ! (unat b mod 16)]"

definition to_hex :: "8 word list \<Rightarrow> string" where
  "to_hex bs = concat (map hex_byte bs)"

section \<open>The signing client (class BinanceAuth)\<close>

record BinanceAuth =
  apiKey :: string
  apiSecret :: string
  baseURL :: string

datatype js_error = Error string

text \<open>
  The constructor reads \<^verbatim>\<open>process.env\<close>, a map from names to strings, and
  throws when the key or the secret is missing or empty.
\<close>

definition env_or :: "string option \<Rightarrow> string \<Rightarrow> string" where
  "env_or x d = (case x of None \<Rightarrow> d | Some s \<Rightarrow> if s = [] then d else s)"

definition env_falsy :: "string option \<Rightarrow> bool" where
  "env_falsy x = (case x of None \<Rightarrow> True | Some s \<Rightarrow> s = [])"

definition BinanceAuth_constructor :: "(string \<Rightarrow> string option) \<Rightarrow> js_error + BinanceAuth" where
  "BinanceAuth_constructor env =
     (if env_falsy (env ''BINANCE_API_KEY'') \<or> env_falsy (env ''BINANCE_API_SECRET'')
      then Inl (Error ''Binance API credentials not found in environment variables'')
      else Inr \<lparr> apiKey = the (env ''BINANCE_API_KEY''),
                 apiSecret = the (env ''BINANCE_API_SECRET''),
                 baseURL = env_or (env ''BINANCE_BASE_URL'') ''https://api.binance.com'' \<rparr>)"

text \<open>
  \<^verbatim>\<open>crypto.createHmac('sha256', key).update(msg).digest()\<close> is a library outside
  the repository: the digest function is a parameter \<open>hmac\<close> of the model,
  taking the key and the message to the digest bytes.
\<close>

type_synonym hmac_fn = "string \<Rightarrow> string \<Rightarrow> 8 word list"

definition generateSignature :: "hmac_fn \<Rightarrow> BinanceAuth \<Rightarrow> string \<Rightarrow> string" where
  "generateSignature hmac this queryString = to_hex (hmac (apiSecret this) queryString)"

text \<open>
  Both query strings of the source are built by the same expression,
  \<^verbatim>\<open>.map(key => `${key}=${encodeURIComponent(params[key])}`).join('&')\<close>,
  applied to a list of keys of \<^verbatim>\<open>params\<close>.
\<close>

definition render_query :: "jsobject \<Rightarrow> string list \<Rightarrow> string" where
  "render_query params ks =
     join ''&'' (map (\<lambda>key. key @ ''='' @ encodeURIComponent (js_get (JObj params) key)) ks)"

text \<open>
  The local \<^verbatim>\<open>queryString\<close> of \<^verbatim>\<open>createSignedParams\<close>:
  \<^verbatim>\<open>Object.keys(params).sort()\<close>, then rendered.
\<close>

definition signed_queryString :: "jsobject \<Rightarrow> string" where
  "signed_queryString params = render_query params (sort (keys params))"

text \<open>
  \<open>now\<close> is the reading of \<^verbatim>\<open>Date.now()\<close>. The assignment
  \<^verbatim>\<open>params.timestamp = Date.now()\<close> updates the caller's object in place; the
  model carries the updated object through the rest of the function.
\<close>

definition createSignedParams :: "hmac_fn \<Rightarrow> BinanceAuth \<Rightarrow> int \<Rightarrow> jsobject \<Rightarrow> jsobject" where
  "createSignedParams hmac this now params =
     (let params = set_prop params ''timestamp'' (JNum now);
          queryString = signed_queryString params;
          signature = generateSignature hmac this queryString
      in set_prop params ''signature'' (JStr signature))"

definition getHeaders :: "BinanceAuth \<Rightarrow> (string \<times> string) list" where
  "getHeaders this =
     [(''X-MBX-APIKEY'', apiKey this),
      (''Content-Type'', ''application/json''),
      (''User-Agent'', ''LockBay-Binance-Proxy/1.0.0'')]"

text \<open>The request description handed to the HTTP library.\<close>

record config =
  config_method :: string
  config_url :: string
  config_headers :: "(string \<times> string) list"
  config_timeout :: nat
  config_data :: "jsobject option"

text \<open>
  The first half of \<^verbatim>\<open>makeRequest\<close>, up to the call of the HTTP library:
  \<open>config_data = None\<close> is a request description without a \<^verbatim>\<open>data\<close> property.
\<close>

definition makeRequest_config ::
    "hmac_fn \<Rightarrow> BinanceAuth \<Rightarrow> int \<Rightarrow> string \<Rightarrow> string \<Rightarrow> jsobject \<Rightarrow> bool \<Rightarrow> config" where
  "makeRequest_config hmac this now method endpoint params requiresSignature =
     (let url = baseURL this @ endpoint;
          params = (if requiresSignature then createSignedParams hmac this now params else params);
          config = \<lparr> config_method = method, config_url = url,
                     config_headers = getHeaders this,
                     config_timeout = 30000, config_data = None \<rparr>
      in if toLowerCase method = ''get''
         then (if length (keys params) > 0
               then config \<lparr> config_url := url @ ''?'' @ render_query params (keys params) \<rparr>
               else config)
         else config \<lparr> config_data := Some params \<rparr>)"

text \<open>
  The HTTP library is a parameter \<open>axios\<close>: it resolves with a response object
  (\<open>Inr\<close>) or rejects with an error object (\<open>Inl\<close>). \<^verbatim>\<open>makeRequest\<close> returns
  its result object or throws the plain object built in its \<^verbatim>\<open>catch\<close> block.
\<close>

definition makeRequest ::
    "hmac_fn \<Rightarrow> BinanceAuth \<Rightarrow> int \<Rightarrow> (config \<Rightarrow> jsval + jsval) \<Rightarrow>
     string \<Rightarrow> string \<Rightarrow> jsobject \<Rightarrow> bool \<Rightarrow> jsval + jsval" where
  "makeRequest hmac this now axios method endpoint params requiresSignature =
     (case axios (makeRequest_config hmac this now method endpoint params requiresSignature) of
        Inr response \<Rightarrow>
          Inr (JObj [(''success'', JBool True),
                     (''data'', js_get response ''data''),
                     (''status'', js_get response ''status'')])
      | Inl error \<Rightarrow>
          Inl (JObj [(''success'', JBool False),
                     (''error'', js_or (js_get (js_get error ''response'') ''data'')
                                       (JObj [(''msg'', js_get error ''message'')])),
                     (''status'', js_or (js_get (js_get error ''response'') ''status'') (JNum 500)),
                     (''code'', js_or (js_get (js_get (js_get error ''response'') ''data'') ''code'')
                                      (JStr ''REQUEST_FAILED''))]))"

section \<open>The error middleware (errorHandler)\<close>

record reply =
  status :: jsval
  json :: jsval

text \<open>
  \<open>env\<close> is \<^verbatim>\<open>process.env\<close> and \<open>isoNow\<close> the reading of
  \<^verbatim>\<open>new Date().toISOString()\<close>. The result is the status and body passed to
  \<^verbatim>\<open>res.status(...).json(...)\<close>; the log line is not modelled.
\<close>

definition errorHandler :: "(string \<Rightarrow> string option) \<Rightarrow> string \<Rightarrow> jsval \<Rightarrow> reply" where
  "errorHandler env isoNow err =
     (if truthy (js_get err ''response'') \<and> truthy (js_get (js_get err ''response'') ''data'')
      then \<lparr> status = js_or (js_get (js_get err ''response'') ''status'') (JNum 500),
              json = JObj [(''error'', JStr ''Binance API Error''),
                           (''message'', js_or (js_get (js_get (js_get err ''response'') ''data'') ''msg'')
                                               (js_get err ''message'')),
                           (''code'', js_or (js_get (js_get (js_get err ''response'') ''data'') ''code'')
                                            (JStr ''UNKNOWN_ERROR'')),
                           (''timestamp'', JStr isoNow)] \<rparr>
      else if js_get err ''code'' = JStr ''ECONNREFUSED'' \<or> js_get err ''code'' = JStr ''ENOTFOUND''
      then \<lparr> status = JNum 503,
              json = JObj [(''error'', JStr ''Service Unavailable''),
                           (''message'', JStr ''Unable to connect to Binance API''),
                           (''code'', JStr ''CONNECTION_ERROR''),
                           (''timestamp'', JStr isoNow)] \<rparr>
      else \<lparr> status = js_or (js_get err ''status'') (JNum 500),
              json = JObj [(''error'', JStr ''Internal Server Error''),
                           (''message'', if env ''NODE_ENV'' = Some ''production''
                                         then JStr ''Something went wrong''
                                         else js_get err ''message''),
                           (''timestamp'', JStr isoNow)] \<rparr>)"

text \<open>
  The route \<^verbatim>\<open>GET /api/v3/account\<close>: a signed call without parameters; a
  result is answered with status 200, a thrown object goes through
  \<^verbatim>\<open>next(error)\<close> to the error middleware.
\<close>

definition route_account ::
    "hmac_fn \<Rightarrow> BinanceAuth \<Rightarrow> int \<Rightarrow> (config \<Rightarrow> jsval + jsval) \<Rightarrow>
     (string \<Rightarrow> string option) \<Rightarrow> string \<Rightarrow> reply" where
  "route_account hmac this now axios env isoNow =
     (case makeRequest hmac this now axios ''GET'' ''/api/v3/account'' [] True of
        Inr result \<Rightarrow>
          \<lparr> status = JNum 200,
             json = JObj [(''success'', JBool True),
                          (''data'', js_get result ''data''),
                          (''timestamp'', JStr isoNow)] \<rparr>
      | Inl error \<Rightarrow> errorHandler env isoNow error)"

section \<open>Properties of the helpers\<close>

lemma keys_set_prop:
  "keys (set_prop obj k v) = (if k \<in> set (keys obj) then keys obj else keys obj @ [k])"
  by (induction obj) (auto simp: set_prop_def keys_def split: prod.splits)

lemma map_of_update_entries:
  "map_of (map (\<lambda>(k', v'). if k' = k then (k', v) else (k', v')) obj) k' =
     (if k' = k then (if k \<in> fst ` set obj then Some v else None) else map_of obj k')"
  by (induction obj) (force simp: image_iff)+

lemma map_of_set_prop: "map_of (set_prop obj k v) = (map_of obj)(k \<mapsto> v)"
proof (rule ext)
  fix k'
  show "map_of (set_prop obj k v) k' = ((map_of obj)(k \<mapsto> v)) k'"
  proof (cases "k \<in> set (keys obj)")
    case True
    then show ?thesis
      by (simp add: set_prop_def map_of_update_entries keys_def)
  next
    case False
    then have "map_of obj k = None" by (simp add: keys_def map_of_eq_None_iff)
    with False show ?thesis
      by (auto simp: set_prop_def map_add_def split: option.splits)
  qed
qed

lemma map_of_set_prop_same: "map_of (set_prop obj k v) k = Some v"
  by (simp add: map_of_set_prop)

lemma map_of_set_prop_other: "k' \<noteq> k \<Longrightarrow> map_of (set_prop obj k v) k' = map_of obj k'"
  by (simp add: map_of_set_prop)

lemma js_get_set_prop_same: "js_get (JObj (set_prop obj k v)) k = v"
  by (simp add: map_of_set_prop_same)

lemma js_get_set_prop_other: "k' \<noteq> k \<Longrightarrow> js_get (JObj (set_prop obj k v)) k' = js_get (JObj obj) k'"
  by (simp add: map_of_set_prop_other)

lemma length_hex_lower: "length hex_lower = 16"
  by (simp add: hex_lower_def)

lemma set_hex_byte: "set (hex_byte b) \<subseteq> set hex_lower"
proof -
  have "unat b < 2 ^ 8" using unsigned_less [of b] by simp
  then have "unat b div 16 < 16" by simp
  moreover have "unat b mod 16 < 16" by simp
  ultimately show ?thesis
    by (simp add: hex_byte_def length_hex_lower)
qed

lemma set_to_hex: "set (to_hex bs) \<subseteq> set hex_lower"
  using set_hex_byte by (auto simp: to_hex_def)

lemma length_to_hex: "length (to_hex bs) = 2 * length bs"
  by (induction bs) (simp_all add: to_hex_def hex_byte_def)

lemma unreserved_hex_lower: "c \<in> set hex_lower \<Longrightarrow> unreserved c"
  by (auto simp: unreserved_def unreserved_chars_def hex_lower_def)

lemma encode_unreserved: "\<forall>c \<in> set s. unreserved c \<Longrightarrow> concat (map encode_char s) = s"
  by (induction s) (simp_all add: encode_char_def)

lemma encodeURIComponent_to_hex: "encodeURIComponent (JStr (to_hex bs)) = to_hex bs"
  unfolding encodeURIComponent_def
  using set_to_hex [of bs] unreserved_hex_lower by (auto intro!: encode_unreserved)

lemma join_snoc: "xs \<noteq> [] \<Longrightarrow> join sep (xs @ [y]) = join sep xs @ sep @ y"
  by (induction sep xs rule: join.induct) simp_all

lemma join_Cons: "xs \<noteq> [] \<Longrightarrow> join sep (x # xs) = x @ sep @ join sep xs"
  by (cases xs) simp_all

lemma append_sep_inject:
  "c \<notin> set x \<Longrightarrow> c \<notin> set y \<Longrightarrow> x @ c # r = y @ c # s \<Longrightarrow> x = y \<and> r = s"
proof (induction x arbitrary: y)
  case Nil
  then show ?case by (cases y) auto
next
  case (Cons a x)
  then show ?case by (cases y) auto
qed

lemma join_inject:
  assumes "length xs = length ys"
    and "\<forall>x \<in> set xs \<union> set ys. c \<notin> set x"
    and "join [c] xs = join [c] ys"
  shows "xs = ys"
  using assms
proof (induction xs ys rule: list_induct2)
  case Nil
  then show ?case by simp
next
  case (Cons x xs y ys)
  show ?case
  proof (cases "xs = []")
    case True
    with Cons show ?thesis by simp
  next
    case False
    with Cons.hyps have ys: "ys \<noteq> []" by auto
    from Cons.prems(2) False ys
    have eq: "x @ c # join [c] xs = y @ c # join [c] ys"
      by (simp add: join_Cons)
    have "c \<notin> set x" "c \<notin> set y" using Cons.prems(1) by auto
    from this eq have "x = y \<and> join [c] xs = join [c] ys"
      by (rule append_sep_inject)
    with Cons show ?thesis by simp
  qed
qed

lemma length_hex_upper: "length hex_upper = 16"
  by (simp add: hex_upper_def)

lemma set_percent: "b < 256 \<Longrightarrow> set (percent b) \<subseteq> insert (CHR ''%'') (set hex_upper)"
proof -
  assume "b < 256"
  then have "b div 16 < 16" by simp
  moreover have "b mod 16 < 16" by simp
  ultimately show ?thesis by (simp add: percent_def length_hex_upper)
qed

lemma utf8_bytes: "n < 256 \<Longrightarrow> b \<in> set (utf8 n) \<Longrightarrow> b < 256"
  by (auto simp: utf8_def split: if_splits)

lemma set_encode_char:
  "set (encode_char c) \<subseteq> set unreserved_chars \<union> insert (CHR ''%'') (set hex_upper)"
proof (cases "unreserved c")
  case True
  then show ?thesis by (simp add: encode_char_def unreserved_def)
next
  case False
  have "set (percent b) \<subseteq> insert (CHR ''%'') (set hex_upper)" if "b \<in> set (utf8 (of_char c))" for b
    using that utf8_bytes [of "of_char c" b] set_percent by simp
  with False show ?thesis by (auto simp: encode_char_def)
qed

lemma set_encodeURIComponent:
  "set (encodeURIComponent v) \<subseteq> set unreserved_chars \<union> insert (CHR ''%'') (set hex_upper)"
  using set_encode_char by (auto simp: encodeURIComponent_def)

lemma amp_not_encoded: "CHR ''&'' \<notin> set (encodeURIComponent v)"
proof -
  have "CHR ''&'' \<notin> set unreserved_chars \<union> insert (CHR ''%'') (set hex_upper)"
    by (simp add: unreserved_chars_def hex_upper_def)
  with set_encodeURIComponent [of v] show ?thesis by blast
qed

lemma eq_not_encoded: "CHR ''='' \<notin> set (encodeURIComponent v)"
proof -
  have "CHR ''='' \<notin> set unreserved_chars \<union> insert (CHR ''%'') (set hex_upper)"
    by (simp add: unreserved_chars_def hex_upper_def)
  with set_encodeURIComponent [of v] show ?thesis by blast
qed

text \<open>The request description, by the two branches of the method test.\<close>

lemma makeRequest_config_get:
  assumes "toLowerCase method = ''get''"
    and "p = (if requiresSignature then createSignedParams hmac this now params else params)"
  shows "makeRequest_config hmac this now method endpoint params requiresSignature =
     \<lparr> config_method = method,
        config_url = baseURL this @ endpoint @
          (if p = [] then [] else ''?'' @ render_query p (keys p)),
        config_headers = getHeaders this,
        config_timeout = 30000,
        config_data = None \<rparr>"
  using assms by (simp add: makeRequest_config_def Let_def keys_def)

lemma makeRequest_config_other:
  assumes "toLowerCase method \<noteq> ''get''"
    and "p = (if requiresSignature then createSignedParams hmac this now params else params)"
  shows "makeRequest_config hmac this now method endpoint params requiresSignature =
     \<lparr> config_method = method,
        config_url = baseURL this @ endpoint,
        config_headers = getHeaders this,
        config_timeout = 30000,
        config_data = Some p \<rparr>"
  using assms by (simp add: makeRequest_config_def Let_def)

lemma config_headers_makeRequest_config:
  "config_headers (makeRequest_config hmac this now method endpoint params requiresSignature)
     = getHeaders this"
  by (simp add: makeRequest_config_def Let_def)

lemma config_timeout_makeRequest_config:
  "config_timeout (makeRequest_config hmac this now method endpoint params requiresSignature)
     = 30000"
  by (simp add: makeRequest_config_def Let_def)

lemma join_inject_nonempty:
  assumes "xs \<noteq> []" and "ys \<noteq> []"
    and "\<forall>x \<in> set xs \<union> set ys. c \<notin> set x"
    and "join [c] xs = join [c] ys"
  shows "xs = ys"
  using assms
proof (induction xs arbitrary: ys)
  case Nil
  then show ?case by simp
next
  case (Cons x xs)
  from Cons.prems(2) obtain y ys' where ys: "ys = y # ys'" by (cases ys) auto
  have cx: "c \<notin> set x" and cy: "c \<notin> set y" using Cons.prems(3) ys by auto
  show ?case
  proof (cases "xs = []")
    case True
    show ?thesis
    proof (cases "ys' = []")
      case True
      with \<open>xs = []\<close> Cons.prems(4) ys show ?thesis by simp
    next
      case False
      with \<open>xs = []\<close> Cons.prems(4) ys have "x = y @ c # join [c] ys'"
        by (simp add: join_Cons)
      with cx show ?thesis by simp
    qed
  next
    case False
    show ?thesis
    proof (cases "ys' = []")
      case True
      with False Cons.prems(4) ys have "y = x @ c # join [c] xs"
        by (simp add: join_Cons)
      with cy show ?thesis by simp
    next
      case ne: False
      from False ne Cons.prems(4) ys
      have "x @ c # join [c] xs = y @ c # join [c] ys'"
        by (simp add: join_Cons)
      with cx cy have "x = y \<and> join [c] xs = join [c] ys'"
        by (rule append_sep_inject)
      moreover have "\<forall>x \<in> set xs \<union> set ys'. c \<notin> set x"
        using Cons.prems(3) ys by auto
      ultimately show ?thesis
        using Cons.IH [of ys'] False ne ys by simp
    qed
  qed
qed

lemma createSignedParams_eq:
  "createSignedParams hmac this now params =
     set_prop (set_prop params ''timestamp'' (JNum now)) ''signature''
       (JStr (generateSignature hmac this
          (signed_queryString (set_prop params ''timestamp'' (JNum now)))))"
  by (simp add: createSignedParams_def Let_def)

lemma set_prop_nonempty: "set_prop obj k v \<noteq> []"
  by (auto simp: set_prop_def keys_def)

lemma keys_nonempty: "keys (set_prop obj k v) \<noteq> []"
  using set_prop_nonempty [of obj k v] by (simp add: keys_def)

lemma encodeURIComponent_signature:
  "encodeURIComponent (JStr (generateSignature hmac this q)) = generateSignature hmac this q"
  by (simp add: generateSignature_def encodeURIComponent_to_hex)

text \<open>The items rendered from the signed mapping, when \<open>signature\<close> is a new key.\<close>

lemma signed_items:
  assumes "''signature'' \<notin> set (keys p)"
  shows "map (\<lambda>key. key @ ''='' @ encodeURIComponent
            (js_get (JObj (set_prop p ''signature'' (JStr (generateSignature hmac this q)))) key))
           (keys (set_prop p ''signature'' (JStr (generateSignature hmac this q))))
       = map (\<lambda>key. key @ ''='' @ encodeURIComponent (js_get (JObj p) key)) (keys p)
         @ [''signature='' @ generateSignature hmac this q]"
proof -
  let ?f = "set_prop p ''signature'' (JStr (generateSignature hmac this q))"
  have ks: "keys ?f = keys p @ [''signature'']"
    using assms by (simp add: keys_set_prop)
  have "js_get (JObj ?f) k = js_get (JObj p) k" if "k \<in> set (keys p)" for k
  proof -
    from that assms have "k \<noteq> ''signature''" by auto
    then show ?thesis by (rule js_get_set_prop_other)
  qed
  then have "map (\<lambda>key. key @ ''='' @ encodeURIComponent (js_get (JObj ?f) key)) (keys p)
      = map (\<lambda>key. key @ ''='' @ encodeURIComponent (js_get (JObj p) key)) (keys p)"
    by simp
  moreover have "js_get (JObj ?f) ''signature'' = JStr (generateSignature hmac this q)"
    by (rule js_get_set_prop_same)
  ultimately show ?thesis
    unfolding ks by (simp add: encodeURIComponent_signature)
qed

lemma item_amp_free:
  "CHR ''&'' \<notin> set k \<Longrightarrow> CHR ''&'' \<notin> set (k @ ''='' @ encodeURIComponent v)"
  using amp_not_encoded [of v] by simp

lemma item_key_inject:
  assumes "CHR ''='' \<notin> set k" and "CHR ''='' \<notin> set k'"
    and "k @ ''='' @ a = k' @ ''='' @ b"
  shows "k = k'"
proof -
  from assms(3) have "k @ CHR ''='' # a = k' @ CHR ''='' # b" by simp
  with assms(1,2) have "k = k' \<and> a = b" by (rule append_sep_inject)
  then show ?thesis by simp
qed

lemma get_url_signed:
  assumes "toLowerCase method = ''get''"
  shows "config_url (makeRequest_config hmac this now method endpoint params True) =
     baseURL this @ endpoint @ ''?'' @
       render_query (createSignedParams hmac this now params)
         (keys (createSignedParams hmac this now params))"
proof -
  have "createSignedParams hmac this now params \<noteq> []"
    unfolding createSignedParams_eq by (rule set_prop_nonempty)
  then show ?thesis
    using makeRequest_config_get [OF assms, of "createSignedParams hmac this now params" True
        hmac this now params endpoint]
    by simp
qed

lemma signed_query_snoc:
  assumes "''signature'' \<notin> set (keys params)"
  shows "render_query (createSignedParams hmac this now params)
            (keys (createSignedParams hmac this now params))
     = render_query (set_prop params ''timestamp'' (JNum now))
            (keys (set_prop params ''timestamp'' (JNum now)))
       @ ''&signature='' @
       generateSignature hmac this (signed_queryString (set_prop params ''timestamp'' (JNum now)))"
proof -
  let ?p = "set_prop params ''timestamp'' (JNum now)"
  have notin: "''signature'' \<notin> set (keys ?p)"
    using assms by (simp add: keys_set_prop)
  have ne: "map (\<lambda>key. key @ ''='' @ encodeURIComponent (js_get (JObj ?p) key)) (keys ?p) \<noteq> []"
    using keys_nonempty [of params "''timestamp''" "JNum now"] by simp
  show ?thesis
    unfolding render_query_def createSignedParams_eq signed_items [OF notin]
    by (subst join_snoc [OF ne]) simp
qed

lemma get_url_sorted:
  assumes "toLowerCase method = ''get''"
    and "''signature'' \<notin> set (keys params)"
    and "sorted (keys (set_prop params ''timestamp'' (JNum now)))"
  shows "config_url (makeRequest_config hmac this now method endpoint params True) =
     baseURL this @ endpoint @ ''?'' @
       signed_queryString (set_prop params ''timestamp'' (JNum now)) @ ''&signature='' @
       generateSignature hmac this (signed_queryString (set_prop params ''timestamp'' (JNum now)))"
proof -
  let ?p = "set_prop params ''timestamp'' (JNum now)"
  from assms(3) have "sort (keys ?p) = keys ?p" by (rule sorted_sort_id)
  then have "signed_queryString ?p = render_query ?p (keys ?p)"
    by (simp add: signed_queryString_def)
  then show ?thesis
    unfolding get_url_signed [OF assms(1)] signed_query_snoc [OF assms(2)] by simp
qed

lemma get_url_only_when_sorted:
  assumes get: "toLowerCase method = ''get''"
    and plain: "\<forall>k \<in> set (keys params). CHR ''&'' \<notin> set k \<and> CHR ''='' \<notin> set k"
    and eq: "config_url (makeRequest_config hmac this now method endpoint params True) =
       baseURL this @ endpoint @ ''?'' @
       signed_queryString (set_prop params ''timestamp'' (JNum now)) @ ''&signature='' @
       generateSignature hmac this (signed_queryString (set_prop params ''timestamp'' (JNum now)))"
  shows "sorted (keys (set_prop params ''timestamp'' (JNum now)))"
proof -
  let ?p = "set_prop params ''timestamp'' (JNum now)"
  let ?sig = "generateSignature hmac this (signed_queryString ?p)"
  let ?final = "createSignedParams hmac this now params"
  let ?r = "\<lambda>key. key @ ''='' @ encodeURIComponent (js_get (JObj ?p) key)"
  let ?rf = "\<lambda>key. key @ ''='' @ encodeURIComponent (js_get (JObj ?final) key)"
  let ?sent = "map ?rf (keys ?final)"
  let ?signed = "map ?r (sort (keys ?p)) @ [''signature='' @ ?sig]"
  have plain_p: "CHR ''&'' \<notin> set k \<and> CHR ''='' \<notin> set k" if "k \<in> set (keys ?p)" for k
    using that plain by (auto simp: keys_set_prop split: if_splits)
  have "sort (keys ?p) \<noteq> []"
    by (metis keys_nonempty length_0_conv length_sort)
  then have sorted_ne: "map ?r (sort (keys ?p)) \<noteq> []" by simp
  have "signed_queryString ?p @ ''&signature='' @ ?sig = join ''&'' ?signed"
    unfolding signed_queryString_def render_query_def by (subst join_snoc [OF sorted_ne]) simp
  with eq have joined: "join [CHR ''&''] ?sent = join [CHR ''&''] ?signed"
    unfolding get_url_signed [OF get] render_query_def by simp
  have sig_amp: "CHR ''&'' \<notin> set (''signature='' @ ?sig)"
    using amp_not_encoded [of "JStr ?sig"] by (simp add: encodeURIComponent_signature)
  have keys_final: "set (keys ?final) \<subseteq> insert ''signature'' (set (keys ?p))"
    unfolding createSignedParams_eq by (auto simp: keys_set_prop split: if_splits)
  have sent_amp: "CHR ''&'' \<notin> set x" if "x \<in> set ?sent" for x
  proof -
    from that obtain k where k: "k \<in> set (keys ?final)" and x: "x = ?rf k" by auto
    from k keys_final have "k = ''signature'' \<or> k \<in> set (keys ?p)" by auto
    then have "CHR ''&'' \<notin> set k" using plain_p by auto
    then show ?thesis unfolding x by (rule item_amp_free)
  qed
  have signed_amp: "CHR ''&'' \<notin> set x" if "x \<in> set ?signed" for x
  proof -
    from that consider "x = ''signature='' @ ?sig"
      | k where "k \<in> set (keys ?p)" "x = ?r k" by auto
    then show ?thesis
    proof cases
      case 1
      with sig_amp show ?thesis by simp
    next
      case 2
      from 2(1) have "CHR ''&'' \<notin> set k" using plain_p by simp
      then show ?thesis unfolding 2(2) by (rule item_amp_free)
    qed
  qed
  have sent_ne: "?sent \<noteq> []"
    unfolding createSignedParams_eq using keys_nonempty by simp
  have lists: "?sent = ?signed"
  proof (rule join_inject_nonempty [OF sent_ne _ _ joined])
    show "?signed \<noteq> []" by simp
    show "\<forall>x \<in> set ?sent \<union> set ?signed. CHR ''&'' \<notin> set x"
      using sent_amp signed_amp by blast
  qed
  have notin: "''signature'' \<notin> set (keys ?p)"
  proof
    assume "''signature'' \<in> set (keys ?p)"
    then have "keys ?final = keys ?p"
      unfolding createSignedParams_eq by (simp add: keys_set_prop)
    then have l1: "length ?sent = length (keys ?p)" by simp
    have l2: "length ?signed = Suc (length (keys ?p))" by simp
    from lists have l3: "length ?sent = length ?signed" by (rule arg_cong)
    from l1 l2 l3 show False by arith
  qed
  then have notin': "''signature'' \<notin> set (keys params)"
    by (auto simp: keys_set_prop split: if_splits)
  have "?sent = map ?r (keys ?p) @ [''signature='' @ ?sig]"
    unfolding createSignedParams_eq by (rule signed_items [OF notin])
  with lists have "map ?r (keys ?p) = map ?r (sort (keys ?p))" by simp
  moreover have "inj_on ?r (set (keys ?p) \<union> set (sort (keys ?p)))"
  proof (rule inj_onI)
    fix k k'
    assume "k \<in> set (keys ?p) \<union> set (sort (keys ?p))"
      and "k' \<in> set (keys ?p) \<union> set (sort (keys ?p))"
      and "?r k = ?r k'"
    then show "k = k'"
      using plain_p item_key_inject [of k k'] by auto
  qed
  ultimately have "keys ?p = sort (keys ?p)"
    by (simp add: inj_on_map_eq_map)
  then show ?thesis by (metis sorted_sort)
qed

lemma toLowerCase_GET: "toLowerCase ''GET'' = ''get''"
  by code_simp

lemma createSignedParams_sample:
  "createSignedParams (\<lambda>key msg. [0xAB, 0x01])
      \<lparr> apiKey = ''K'', apiSecret = ''S'', baseURL = ''https://api.binance.com'' \<rparr> 1000
      [(''symbol'', JStr ''BTCUSDT'')]
   = [(''symbol'', JStr ''BTCUSDT''), (''timestamp'', JNum 1000), (''signature'', JStr ''ab01'')]"
  by code_simp

text \<open>
  What the error middleware receives from a route: the object thrown by
  \<^verbatim>\<open>makeRequest\<close> has the properties \<^verbatim>\<open>success\<close>, \<^verbatim>\<open>error\<close>, \<^verbatim>\<open>status\<close>
  and \<^verbatim>\<open>code\<close>, and neither \<^verbatim>\<open>response\<close> nor \<^verbatim>\<open>message\<close>. For a transport
  failure without a response the route therefore answers with the default
  reply, whatever the failure's own \<^verbatim>\<open>code\<close>.
\<close>

lemma makeRequest_thrown_has_no_response:
  assumes "makeRequest hmac this now axios method endpoint params requiresSignature = Inl thrown"
  shows "js_get thrown ''response'' = JUndefined \<and> js_get thrown ''message'' = JUndefined"
  using assms by (auto simp: makeRequest_def split: sum.splits)

lemma route_account_transport_failure:
  assumes "js_get e ''response'' = JUndefined"
  shows "route_account hmac this now (\<lambda>cfg. Inl e) env isoNow =
     \<lparr> status = JNum 500,
        json = JObj [(''error'', JStr ''Internal Server Error''),
                     (''message'', if env ''NODE_ENV'' = Some ''production''
                                   then JStr ''Something went wrong'' else JUndefined),
                     (''timestamp'', JStr isoNow)] \<rparr>"
  using assms by (simp add: route_account_def makeRequest_def errorHandler_def js_or_def)

section \<open>The claims\<close>

text \<open>
  Claim C1. For every parameter mapping and secret, \<^verbatim>\<open>createSignedParams\<close> signs
  the canonical string of the mapping with the timestamp set: its keys in
  ascending order of their code units (a sorted rearrangement of the keys), each
  rendered as \<^verbatim>\<open>key=encodeURIComponent(value)\<close> and joined by \<^verbatim>\<open>&\<close>. The
  \<^verbatim>\<open>signature\<close> entry of the result is the hexadecimal rendering of the HMAC
  digest of that string under the secret, and every character of it is one of
  \<^verbatim>\<open>0123456789abcdef\<close>.
\<close>

theorem C1_canonical_string_and_signature:
  "createSignedParams hmac this now params =
     set_prop (set_prop params ''timestamp'' (JNum now)) ''signature''
       (JStr (to_hex (hmac (apiSecret this)
          (signed_queryString (set_prop params ''timestamp'' (JNum now))))))
   \<and> (\<exists>ks. sorted ks
          \<and> mset ks = mset (keys (set_prop params ''timestamp'' (JNum now)))
          \<and> signed_queryString (set_prop params ''timestamp'' (JNum now)) =
              join ''&'' (map (\<lambda>k. k @ ''='' @
                  encodeURIComponent (js_get (JObj (set_prop params ''timestamp'' (JNum now))) k)) ks))
   \<and> js_get (JObj (set_prop params ''timestamp'' (JNum now))) ''timestamp'' = JNum now
   \<and> js_get (JObj (createSignedParams hmac this now params)) ''signature'' =
       JStr (to_hex (hmac (apiSecret this)
          (signed_queryString (set_prop params ''timestamp'' (JNum now)))))
   \<and> set (to_hex (hmac (apiSecret this)
          (signed_queryString (set_prop params ''timestamp'' (JNum now))))) \<subseteq> set hex_lower
   \<and> hex_lower = ''0123456789abcdef''"
proof -
  let ?p = "set_prop params ''timestamp'' (JNum now)"
  have a: "createSignedParams hmac this now params =
     set_prop ?p ''signature'' (JStr (to_hex (hmac (apiSecret this) (signed_queryString ?p))))"
    by (simp add: createSignedParams_def generateSignature_def Let_def)
  have b: "sorted (sort (keys ?p)) \<and> mset (sort (keys ?p)) = mset (keys ?p)"
    by simp
  have c: "signed_queryString ?p =
      join ''&'' (map (\<lambda>k. k @ ''='' @ encodeURIComponent (js_get (JObj ?p) k)) (sort (keys ?p)))"
    by (simp add: signed_queryString_def render_query_def)
  from b c have d: "\<exists>ks. sorted ks \<and> mset ks = mset (keys ?p)
          \<and> signed_queryString ?p =
              join ''&'' (map (\<lambda>k. k @ ''='' @ encodeURIComponent (js_get (JObj ?p) k)) ks)"
    by blast
  have e: "js_get (JObj ?p) ''timestamp'' = JNum now"
    by (rule js_get_set_prop_same)
  have f: "js_get (JObj (createSignedParams hmac this now params)) ''signature'' =
       JStr (to_hex (hmac (apiSecret this) (signed_queryString ?p)))"
    unfolding a by (rule js_get_set_prop_same)
  from a d e f set_to_hex hex_lower_def show ?thesis by blast
qed

text \<open>
  C1 at a concrete call: two parameters given out of order, clock at 1000.
\<close>

theorem C1_witness:
  "createSignedParams (\<lambda>key msg. [0xAB, 0x01])
      \<lparr> apiKey = ''K'', apiSecret = ''S'', baseURL = ''https://api.binance.com'' \<rparr> 1000
      [(''symbol'', JStr ''BTC/USDT''), (''limit'', JNum 5)]
    = [(''symbol'', JStr ''BTC/USDT''), (''limit'', JNum 5), (''timestamp'', JNum 1000),
       (''signature'', JStr ''ab01'')]
   \<and> signed_queryString [(''symbol'', JStr ''BTC/USDT''), (''limit'', JNum 5), (''timestamp'', JNum 1000)]
      = ''limit=5&symbol=BTC%2FUSDT&timestamp=1000''"
proof -
  have p: "set_prop [(''symbol'', JStr ''BTC/USDT''), (''limit'', JNum 5)] ''timestamp'' (JNum 1000)
      = [(''symbol'', JStr ''BTC/USDT''), (''limit'', JNum 5), (''timestamp'', JNum 1000)]"
    by (simp add: set_prop_def keys_def)
  have q: "signed_queryString [(''symbol'', JStr ''BTC/USDT''), (''limit'', JNum 5), (''timestamp'', JNum 1000)]
      = ''limit=5&symbol=BTC%2FUSDT&timestamp=1000''"
    by code_simp
  have h: "to_hex [0xAB, 0x01] = ''ab01''" by code_simp
  from C1_canonical_string_and_signature
        [of "\<lambda>key msg. [0xAB, 0x01]"
            "\<lparr> apiKey = ''K'', apiSecret = ''S'', baseURL = ''https://api.binance.com'' \<rparr>"
            1000 "[(''symbol'', JStr ''BTC/USDT''), (''limit'', JNum 5)]"]
  have "createSignedParams (\<lambda>key msg. [0xAB, 0x01])
      \<lparr> apiKey = ''K'', apiSecret = ''S'', baseURL = ''https://api.binance.com'' \<rparr> 1000
      [(''symbol'', JStr ''BTC/USDT''), (''limit'', JNum 5)]
    = set_prop [(''symbol'', JStr ''BTC/USDT''), (''limit'', JNum 5), (''timestamp'', JNum 1000)]
        ''signature'' (JStr ''ab01'')"
    unfolding p h by blast
  then show ?thesis using q by (simp add: set_prop_def keys_def)
qed


text \<open>
  Claim C2, amended. For every signed call whose parameters carry no key named
  \<^verbatim>\<open>signature\<close>: the timestamp is set first; the signature is computed from the
  canonical string of exactly that mapping, whose keys do not include
  \<^verbatim>\<open>signature\<close>; only then is the \<^verbatim>\<open>signature\<close> entry added, as the last
  key, and every other entry is left as it was signed.
\<close>

theorem C2_signature_computed_before_it_is_appended:
  assumes "''signature'' \<notin> set (keys params)"
  shows "''timestamp'' \<in> set (keys (set_prop params ''timestamp'' (JNum now)))
   \<and> createSignedParams hmac this now params =
       set_prop (set_prop params ''timestamp'' (JNum now)) ''signature''
         (JStr (generateSignature hmac this
            (signed_queryString (set_prop params ''timestamp'' (JNum now)))))
   \<and> ''signature'' \<notin> set (sort (keys (set_prop params ''timestamp'' (JNum now))))
   \<and> keys (createSignedParams hmac this now params) =
       keys (set_prop params ''timestamp'' (JNum now)) @ [''signature'']
   \<and> (\<forall>k \<in> set (keys (set_prop params ''timestamp'' (JNum now))).
         js_get (JObj (createSignedParams hmac this now params)) k =
         js_get (JObj (set_prop params ''timestamp'' (JNum now))) k)"
proof -
  let ?p = "set_prop params ''timestamp'' (JNum now)"
  have notin: "''signature'' \<notin> set (keys ?p)"
    using assms by (simp add: keys_set_prop)
  have ts: "''timestamp'' \<in> set (keys ?p)"
    by (simp add: keys_set_prop)
  have eq: "createSignedParams hmac this now params =
      set_prop ?p ''signature'' (JStr (generateSignature hmac this (signed_queryString ?p)))"
    by (simp add: createSignedParams_def Let_def)
  have ks: "keys (createSignedParams hmac this now params) = keys ?p @ [''signature'']"
    unfolding eq using notin by (simp add: keys_set_prop)
  have same: "js_get (JObj (createSignedParams hmac this now params)) k = js_get (JObj ?p) k"
    if "k \<in> set (keys ?p)" for k
  proof -
    from that notin have "k \<noteq> ''signature''" by auto
    then show ?thesis unfolding eq by (rule js_get_set_prop_other)
  qed
  from notin have "''signature'' \<notin> set (sort (keys ?p))" by simp
  with ts eq ks same show ?thesis by blast
qed

text \<open>
  C2 at a concrete call with one parameter.
\<close>

theorem C2_witness:
  "''signature'' \<notin> set (keys [(''coin'', JStr ''BTC'')])
   \<and> keys (createSignedParams (\<lambda>key msg. [0xAB, 0x01])
        \<lparr> apiKey = ''K'', apiSecret = ''S'', baseURL = ''https://api.binance.com'' \<rparr> 1000
        [(''coin'', JStr ''BTC'')]) = [''coin'', ''timestamp'', ''signature'']"
proof -
  have h: "''signature'' \<notin> set (keys [(''coin'', JStr ''BTC'')])"
    by (simp add: keys_def)
  from C2_signature_computed_before_it_is_appended [OF h, of 1000 "\<lambda>key msg. [0xAB, 0x01]"
        "\<lparr> apiKey = ''K'', apiSecret = ''S'', baseURL = ''https://api.binance.com'' \<rparr>"]
  have "keys (createSignedParams (\<lambda>key msg. [0xAB, 0x01])
        \<lparr> apiKey = ''K'', apiSecret = ''S'', baseURL = ''https://api.binance.com'' \<rparr> 1000
        [(''coin'', JStr ''BTC'')]) =
      keys (set_prop [(''coin'', JStr ''BTC'')] ''timestamp'' (JNum 1000)) @ [''signature'']"
    by blast
  with h show ?thesis by (simp add: keys_def set_prop_def)
qed

text \<open>
  Claim C2 as stated fails when the caller's parameters already carry a
  \<^verbatim>\<open>signature\<close> key: it is an entry of the mapping like any other, so the
  signed string renders it, and the computed signature then replaces its value.
\<close>

theorem C2_counterexample:
  "''signature'' \<in> set (sort (keys (set_prop [(''signature'', JStr ''x'')] ''timestamp'' (JNum 1000))))
   \<and> signed_queryString (set_prop [(''signature'', JStr ''x'')] ''timestamp'' (JNum 1000))
       = ''signature=x&timestamp=1000''
   \<and> createSignedParams (\<lambda>key msg. [0xAB, 0x01])
        \<lparr> apiKey = ''K'', apiSecret = ''S'', baseURL = ''https://api.binance.com'' \<rparr> 1000
        [(''signature'', JStr ''x'')]
       = [(''signature'', JStr ''ab01''), (''timestamp'', JNum 1000)]"
  by code_simp

text \<open>
  Claim C4, amended. Every request description carries exactly three headers:
  \<^verbatim>\<open>X-MBX-APIKEY\<close> set to the API key, \<^verbatim>\<open>Content-Type: application/json\<close>
  and \<^verbatim>\<open>User-Agent: LockBay-Binance-Proxy/1.0.0\<close>.
\<close>

theorem C4_request_headers:
  "getHeaders this =
     [(''X-MBX-APIKEY'', apiKey this),
      (''Content-Type'', ''application/json''),
      (''User-Agent'', ''LockBay-Binance-Proxy/1.0.0'')]
   \<and> config_headers (makeRequest_config hmac this now method endpoint params requiresSignature)
       = getHeaders this
   \<and> map_of (getHeaders this) ''X-MBX-APIKEY'' = Some (apiKey this)
   \<and> map_of (getHeaders this) ''Content-Type'' = Some ''application/json''
   \<and> map_of (getHeaders this) ''User-Agent'' = Some ''LockBay-Binance-Proxy/1.0.0''"
  by (simp add: getHeaders_def config_headers_makeRequest_config)

text \<open>
  Claim C4 as stated fails: no header of a built request is named
  \<^verbatim>\<open>X-API-KEY\<close>, in any letter case.
\<close>

theorem C4_counterexample:
  "''x-api-key'' \<notin> set (map (toLowerCase \<circ> fst)
      (config_headers (makeRequest_config (\<lambda>key msg. [0xAB, 0x01])
        \<lparr> apiKey = ''K'', apiSecret = ''S'', baseURL = ''https://api.binance.com'' \<rparr> 1000
        ''GET'' ''/api/v3/account'' [] True)))
   \<and> map_of (config_headers (makeRequest_config (\<lambda>key msg. [0xAB, 0x01])
        \<lparr> apiKey = ''K'', apiSecret = ''S'', baseURL = ''https://api.binance.com'' \<rparr> 1000
        ''GET'' ''/api/v3/account'' [] True)) ''X-API-KEY'' = None"
  unfolding config_headers_makeRequest_config by code_simp

text \<open>
  Claim C9. The constructor throws exactly when the API key or the API secret
  is missing from the environment or empty. A client that is constructed holds
  the environment's non-empty key and secret, signs with that secret and sends
  that key.
\<close>

theorem C9_constructor_requires_credentials:
  "(BinanceAuth_constructor env =
      Inl (Error ''Binance API credentials not found in environment variables'')
    \<longleftrightarrow> env ''BINANCE_API_KEY'' = None \<or> env ''BINANCE_API_KEY'' = Some []
       \<or> env ''BINANCE_API_SECRET'' = None \<or> env ''BINANCE_API_SECRET'' = Some [])
   \<and> (\<forall>c. BinanceAuth_constructor env = Inr c \<longrightarrow>
         env ''BINANCE_API_KEY'' = Some (apiKey c) \<and> apiKey c \<noteq> []
       \<and> env ''BINANCE_API_SECRET'' = Some (apiSecret c) \<and> apiSecret c \<noteq> []
       \<and> (\<forall>hmac q. generateSignature hmac c q = to_hex (hmac (apiSecret c) q))
       \<and> map_of (getHeaders c) ''X-MBX-APIKEY'' = Some (apiKey c))"
  by (auto simp: BinanceAuth_constructor_def env_falsy_def generateSignature_def getHeaders_def
           split: option.splits)

text \<open>
  C9 at two environments: the secret missing, and both credentials present.
\<close>

theorem C9_witness:
  "BinanceAuth_constructor [''BINANCE_API_KEY'' \<mapsto> ''K''] =
      Inl (Error ''Binance API credentials not found in environment variables'')
   \<and> BinanceAuth_constructor [''BINANCE_API_KEY'' \<mapsto> ''K'', ''BINANCE_API_SECRET'' \<mapsto> ''S''] =
      Inr \<lparr> apiKey = ''K'', apiSecret = ''S'', baseURL = ''https://api.binance.com'' \<rparr>"
proof -
  have "[''BINANCE_API_KEY'' \<mapsto> ''K''] ''BINANCE_API_SECRET'' = None" by simp
  with C9_constructor_requires_credentials [of "[''BINANCE_API_KEY'' \<mapsto> ''K'']"]
  have a: "BinanceAuth_constructor [''BINANCE_API_KEY'' \<mapsto> ''K''] =
      Inl (Error ''Binance API credentials not found in environment variables'')"
    by blast
  have b: "BinanceAuth_constructor [''BINANCE_API_KEY'' \<mapsto> ''K'', ''BINANCE_API_SECRET'' \<mapsto> ''S''] =
      Inr \<lparr> apiKey = ''K'', apiSecret = ''S'', baseURL = ''https://api.binance.com'' \<rparr>"
    by (simp add: BinanceAuth_constructor_def env_falsy_def env_or_def)
  from a b show ?thesis by simp
qed

text \<open>
  Claim C3, amended. A request whose method is \<^verbatim>\<open>get\<close> in any letter case
  carries all parameters (with timestamp and signature when signed) in the URL
  query string and has no body; a request of any other method, \<^verbatim>\<open>POST\<close>,
  \<^verbatim>\<open>PUT\<close> and also \<^verbatim>\<open>DELETE\<close>, carries all parameters in the body and none
  in the URL. Parameters are never split across both.
\<close>

theorem C3_parameters_in_query_or_body:
  "(toLowerCase method = ''get'' \<longrightarrow>
      config_data (makeRequest_config hmac this now method endpoint params requiresSignature) = None
    \<and> config_url (makeRequest_config hmac this now method endpoint params requiresSignature) =
        baseURL this @ endpoint @
          (if (if requiresSignature then createSignedParams hmac this now params else params) = []
           then []
           else ''?'' @ render_query
             (if requiresSignature then createSignedParams hmac this now params else params)
             (keys (if requiresSignature then createSignedParams hmac this now params else params))))
   \<and> (toLowerCase method \<noteq> ''get'' \<longrightarrow>
      config_data (makeRequest_config hmac this now method endpoint params requiresSignature) =
        Some (if requiresSignature then createSignedParams hmac this now params else params)
    \<and> config_url (makeRequest_config hmac this now method endpoint params requiresSignature) =
        baseURL this @ endpoint)
   \<and> toLowerCase ''GET'' = ''get''
   \<and> toLowerCase ''POST'' \<noteq> ''get''
   \<and> toLowerCase ''PUT'' \<noteq> ''get''
   \<and> toLowerCase ''DELETE'' \<noteq> ''get''"
proof -
  let ?p = "if requiresSignature then createSignedParams hmac this now params else params"
  let ?cfg = "makeRequest_config hmac this now method endpoint params requiresSignature"
  have post: "toLowerCase ''POST'' \<noteq> ''get''" by (simp add: toLowerCase_def)
  have put: "toLowerCase ''PUT'' \<noteq> ''get''" by code_simp
  have del: "toLowerCase ''DELETE'' \<noteq> ''get''" by (simp add: toLowerCase_def)
  have a: "config_data ?cfg = None
          \<and> config_url ?cfg = baseURL this @ endpoint @
               (if ?p = [] then [] else ''?'' @ render_query ?p (keys ?p))"
    if "toLowerCase method = ''get''"
    using makeRequest_config_get [OF that, of ?p requiresSignature hmac this now params endpoint]
    by simp
  have b: "config_data ?cfg = Some ?p \<and> config_url ?cfg = baseURL this @ endpoint"
    if "toLowerCase method \<noteq> ''get''"
    using makeRequest_config_other [OF that, of ?p requiresSignature hmac this now params endpoint]
    by simp
  from a b toLowerCase_GET post put del show ?thesis by blast
qed

text \<open>
  C3 at a signed \<^verbatim>\<open>GET\<close> and a signed \<^verbatim>\<open>POST\<close> with one parameter.
\<close>

theorem C3_witness:
  "config_url (makeRequest_config (\<lambda>key msg. [0xAB, 0x01])
      \<lparr> apiKey = ''K'', apiSecret = ''S'', baseURL = ''https://api.binance.com'' \<rparr> 1000
      ''GET'' ''/api/v3/openOrders'' [(''symbol'', JStr ''BTCUSDT'')] True)
    = ''https://api.binance.com/api/v3/openOrders?symbol=BTCUSDT&timestamp=1000&signature=ab01''
   \<and> config_data (makeRequest_config (\<lambda>key msg. [0xAB, 0x01])
      \<lparr> apiKey = ''K'', apiSecret = ''S'', baseURL = ''https://api.binance.com'' \<rparr> 1000
      ''GET'' ''/api/v3/openOrders'' [(''symbol'', JStr ''BTCUSDT'')] True) = None
   \<and> config_url (makeRequest_config (\<lambda>key msg. [0xAB, 0x01])
      \<lparr> apiKey = ''K'', apiSecret = ''S'', baseURL = ''https://api.binance.com'' \<rparr> 1000
      ''POST'' ''/sapi/v1/capital/withdraw/apply'' [(''symbol'', JStr ''BTCUSDT'')] True)
    = ''https://api.binance.com/sapi/v1/capital/withdraw/apply''
   \<and> config_data (makeRequest_config (\<lambda>key msg. [0xAB, 0x01])
      \<lparr> apiKey = ''K'', apiSecret = ''S'', baseURL = ''https://api.binance.com'' \<rparr> 1000
      ''POST'' ''/sapi/v1/capital/withdraw/apply'' [(''symbol'', JStr ''BTCUSDT'')] True)
    = Some [(''symbol'', JStr ''BTCUSDT''), (''timestamp'', JNum 1000), (''signature'', JStr ''ab01'')]"
proof -
  note c3 = C3_parameters_in_query_or_body [of _ "(\<lambda>key msg. [0xAB, 0x01])"
      "\<lparr> apiKey = ''K'', apiSecret = ''S'', baseURL = ''https://api.binance.com'' \<rparr>" 1000 _
      "[(''symbol'', JStr ''BTCUSDT'')]" True]
  have enc: "render_query
       [(''symbol'', JStr ''BTCUSDT''), (''timestamp'', JNum 1000), (''signature'', JStr ''ab01'')]
       (keys [(''symbol'', JStr ''BTCUSDT''), (''timestamp'', JNum 1000),
              (''signature'', JStr ''ab01'')])
     = ''symbol=BTCUSDT&timestamp=1000&signature=ab01''"
    by code_simp
  have g: "toLowerCase ''GET'' = ''get''" and p: "toLowerCase ''POST'' \<noteq> ''get''"
    using c3 by blast+
  from c3 [of "''GET''" "''/api/v3/openOrders''"] g
  have 1: "config_data (makeRequest_config (\<lambda>key msg. [0xAB, 0x01])
      \<lparr> apiKey = ''K'', apiSecret = ''S'', baseURL = ''https://api.binance.com'' \<rparr> 1000
      ''GET'' ''/api/v3/openOrders'' [(''symbol'', JStr ''BTCUSDT'')] True) = None"
   and 2: "config_url (makeRequest_config (\<lambda>key msg. [0xAB, 0x01])
      \<lparr> apiKey = ''K'', apiSecret = ''S'', baseURL = ''https://api.binance.com'' \<rparr> 1000
      ''GET'' ''/api/v3/openOrders'' [(''symbol'', JStr ''BTCUSDT'')] True) =
      ''https://api.binance.com/api/v3/openOrders?symbol=BTCUSDT&timestamp=1000&signature=ab01''"
    by (simp_all add: createSignedParams_sample enc)
  from c3 [of "''POST''" "''/sapi/v1/capital/withdraw/apply''"] p
  have 3: "config_data (makeRequest_config (\<lambda>key msg. [0xAB, 0x01])
      \<lparr> apiKey = ''K'', apiSecret = ''S'', baseURL = ''https://api.binance.com'' \<rparr> 1000
      ''POST'' ''/sapi/v1/capital/withdraw/apply'' [(''symbol'', JStr ''BTCUSDT'')] True)
    = Some [(''symbol'', JStr ''BTCUSDT''), (''timestamp'', JNum 1000), (''signature'', JStr ''ab01'')]"
   and 4: "config_url (makeRequest_config (\<lambda>key msg. [0xAB, 0x01])
      \<lparr> apiKey = ''K'', apiSecret = ''S'', baseURL = ''https://api.binance.com'' \<rparr> 1000
      ''POST'' ''/sapi/v1/capital/withdraw/apply'' [(''symbol'', JStr ''BTCUSDT'')] True)
    = ''https://api.binance.com/sapi/v1/capital/withdraw/apply''"
    by (simp_all add: createSignedParams_sample)
  from 1 2 3 4 show ?thesis by simp
qed

text \<open>
  Claim C3 as stated fails for \<^verbatim>\<open>DELETE\<close>: its parameters go to the body and
  the URL has no query string.
\<close>

theorem C3_counterexample:
  "makeRequest_config (\<lambda>key msg. [0xAB, 0x01])
      \<lparr> apiKey = ''K'', apiSecret = ''S'', baseURL = ''https://api.binance.com'' \<rparr> 1000
      ''DELETE'' ''/api/v3/order'' [(''symbol'', JStr ''BTCUSDT'')] False
    = \<lparr> config_method = ''DELETE'',
         config_url = ''https://api.binance.com/api/v3/order'',
         config_headers = [(''X-MBX-APIKEY'', ''K''), (''Content-Type'', ''application/json''),
                           (''User-Agent'', ''LockBay-Binance-Proxy/1.0.0'')],
         config_timeout = 30000,
         config_data = Some [(''symbol'', JStr ''BTCUSDT'')] \<rparr>"
proof -
  have "toLowerCase ''DELETE'' \<noteq> ''get''" by (simp add: toLowerCase_def)
  then show ?thesis
    by (simp add: makeRequest_config_other getHeaders_def)
qed

text \<open>
  Claim C8, amended. With \<^verbatim>\<open>requiresSignature = false\<close> nothing is added to the
  parameters: the request carries exactly the caller's entries, in the query
  string for \<^verbatim>\<open>get\<close> (no query string at all when there are none) and as the
  body otherwise, whatever the clock and the digest function. A
  \<^verbatim>\<open>timestamp\<close> or \<^verbatim>\<open>signature\<close> key is in the request only if the caller
  supplied it.
\<close>

theorem C8_unsigned_parameters_pass_through:
  "makeRequest_config hmac this now method endpoint params False =
     (if toLowerCase method = ''get''
      then \<lparr> config_method = method,
              config_url = baseURL this @ endpoint @
                (if params = [] then [] else ''?'' @ render_query params (keys params)),
              config_headers = getHeaders this,
              config_timeout = 30000,
              config_data = None \<rparr>
      else \<lparr> config_method = method,
              config_url = baseURL this @ endpoint,
              config_headers = getHeaders this,
              config_timeout = 30000,
              config_data = Some params \<rparr>)
   \<and> (\<forall>d k. config_data (makeRequest_config hmac this now method endpoint params False) = Some d
          \<and> k \<notin> set (keys params) \<longrightarrow> k \<notin> set (keys d))
   \<and> makeRequest_config hmac this now method endpoint params False =
       makeRequest_config hmac' this now' method endpoint params False"
proof (cases "toLowerCase method = ''get''")
  case True
  then show ?thesis by (simp add: makeRequest_config_get)
next
  case False
  then show ?thesis by (simp add: makeRequest_config_other)
qed

text \<open>
  C8 at the public price lookup: the query string is \<^verbatim>\<open>symbol=BTCUSDT\<close> exactly.
\<close>

theorem C8_witness:
  "config_url (makeRequest_config (\<lambda>key msg. [0xAB, 0x01])
      \<lparr> apiKey = ''K'', apiSecret = ''S'', baseURL = ''https://api.binance.com'' \<rparr> 1000
      ''GET'' ''/api/v3/ticker/price'' [(''symbol'', JStr ''BTCUSDT'')] False)
    = ''https://api.binance.com/api/v3/ticker/price?symbol=BTCUSDT''
   \<and> config_data (makeRequest_config (\<lambda>key msg. [0xAB, 0x01])
      \<lparr> apiKey = ''K'', apiSecret = ''S'', baseURL = ''https://api.binance.com'' \<rparr> 1000
      ''GET'' ''/api/v3/ticker/price'' [(''symbol'', JStr ''BTCUSDT'')] False) = None"
proof -
  have enc: "render_query [(''symbol'', JStr ''BTCUSDT'')] (keys [(''symbol'', JStr ''BTCUSDT'')])
     = ''symbol=BTCUSDT''"
    by code_simp
  note c8 = C8_unsigned_parameters_pass_through
      [of "\<lambda>key msg. [0xAB, 0x01]"
          "\<lparr> apiKey = ''K'', apiSecret = ''S'', baseURL = ''https://api.binance.com'' \<rparr>"
          1000 "''GET''" "''/api/v3/ticker/price''" "[(''symbol'', JStr ''BTCUSDT'')]"
          "\<lambda>key msg. []" 0, THEN conjunct1]
  show ?thesis unfolding c8 by (simp add: toLowerCase_GET enc)
qed

text \<open>
  Claim C8 as stated fails when the caller's own parameters contain a
  \<^verbatim>\<open>timestamp\<close> key: it passes through like any other entry and appears in
  the request.
\<close>

theorem C8_counterexample:
  "config_url (makeRequest_config (\<lambda>key msg. [0xAB, 0x01])
      \<lparr> apiKey = ''K'', apiSecret = ''S'', baseURL = ''https://api.binance.com'' \<rparr> 1000
      ''GET'' ''/api/v3/ticker/price'' [(''timestamp'', JNum 5)] False)
    = ''https://api.binance.com/api/v3/ticker/price?timestamp=5''
   \<and> config_data (makeRequest_config (\<lambda>key msg. [0xAB, 0x01])
      \<lparr> apiKey = ''K'', apiSecret = ''S'', baseURL = ''https://api.binance.com'' \<rparr> 1000
      ''POST'' ''/api/v3/order/test'' [(''timestamp'', JNum 5)] False)
    = Some [(''timestamp'', JNum 5)]"
proof -
  have enc: "render_query [(''timestamp'', JNum 5)] (keys [(''timestamp'', JNum 5)])
     = ''timestamp=5''"
    by code_simp
  have post: "toLowerCase ''POST'' \<noteq> ''get''" by (simp add: toLowerCase_def)
  show ?thesis
    by (simp add: makeRequest_config_get [OF toLowerCase_GET] makeRequest_config_other [OF post] enc
         )
qed

text \<open>
  Claim C10, amended. For every signed \<^verbatim>\<open>get\<close> request the query string is
  rendered from the keys of the signed mapping in their enumeration order,
  without sorting: the caller's keys, then \<^verbatim>\<open>timestamp\<close>, then
  \<^verbatim>\<open>signature\<close>, when the caller supplied neither of the two. When that order
  is already sorted (and the caller supplied no \<^verbatim>\<open>signature\<close>), the query
  string is the signed canonical string followed by \<^verbatim>\<open>&signature=\<close> and the
  signature; when no key contains \<^verbatim>\<open>&\<close> or \<^verbatim>\<open>=\<close>, it is so only then; and
  for some parameter mappings the two differ.
\<close>

theorem C10_query_string_keeps_enumeration_order:
  assumes "toLowerCase method = ''get''"
  shows "config_url (makeRequest_config hmac this now method endpoint params True) =
       baseURL this @ endpoint @ ''?'' @
         render_query (createSignedParams hmac this now params)
           (keys (createSignedParams hmac this now params))
   \<and> (''timestamp'' \<notin> set (keys params) \<and> ''signature'' \<notin> set (keys params) \<longrightarrow>
        keys (createSignedParams hmac this now params) = keys params @ [''timestamp'', ''signature''])
   \<and> (''signature'' \<notin> set (keys params)
        \<and> sorted (keys (set_prop params ''timestamp'' (JNum now))) \<longrightarrow>
        config_url (makeRequest_config hmac this now method endpoint params True) =
          baseURL this @ endpoint @ ''?'' @
          signed_queryString (set_prop params ''timestamp'' (JNum now)) @ ''&signature='' @
          generateSignature hmac this (signed_queryString (set_prop params ''timestamp'' (JNum now))))
   \<and> ((\<forall>k \<in> set (keys params). CHR ''&'' \<notin> set k \<and> CHR ''='' \<notin> set k)
        \<and> config_url (makeRequest_config hmac this now method endpoint params True) =
          baseURL this @ endpoint @ ''?'' @
          signed_queryString (set_prop params ''timestamp'' (JNum now)) @ ''&signature='' @
          generateSignature hmac this (signed_queryString (set_prop params ''timestamp'' (JNum now)))
        \<longrightarrow> sorted (keys (set_prop params ''timestamp'' (JNum now))))
   \<and> (\<exists>params'.
        config_url (makeRequest_config hmac this now method endpoint params' True) \<noteq>
          baseURL this @ endpoint @ ''?'' @
          signed_queryString (set_prop params' ''timestamp'' (JNum now)) @ ''&signature='' @
          generateSignature hmac this (signed_queryString (set_prop params' ''timestamp'' (JNum now))))"
proof -
  have order: "keys (createSignedParams hmac this now params) = keys params @ [''timestamp'', ''signature'']"
    if "''timestamp'' \<notin> set (keys params) \<and> ''signature'' \<notin> set (keys params)"
    unfolding createSignedParams_eq using that by (simp add: keys_set_prop)
  let ?q = "[(''symbol'', JStr ''BTCUSDT''), (''limit'', JNum 5)]"
  have differ: "config_url (makeRequest_config hmac this now method endpoint ?q True) \<noteq>
          baseURL this @ endpoint @ ''?'' @
          signed_queryString (set_prop ?q ''timestamp'' (JNum now)) @ ''&signature='' @
          generateSignature hmac this (signed_queryString (set_prop ?q ''timestamp'' (JNum now)))"
  proof
    assume eq: "config_url (makeRequest_config hmac this now method endpoint ?q True) =
          baseURL this @ endpoint @ ''?'' @
          signed_queryString (set_prop ?q ''timestamp'' (JNum now)) @ ''&signature='' @
          generateSignature hmac this (signed_queryString (set_prop ?q ''timestamp'' (JNum now)))"
    have "\<forall>k \<in> set (keys ?q). CHR ''&'' \<notin> set k \<and> CHR ''='' \<notin> set k"
      by (simp add: keys_def)
    from get_url_only_when_sorted [OF assms this eq]
    have "sorted (keys (set_prop ?q ''timestamp'' (JNum now)))" .
    then show False by (simp add: set_prop_def keys_def)
  qed
  from get_url_signed [OF assms] order get_url_sorted [OF assms]
    get_url_only_when_sorted [OF assms] differ
  show ?thesis by blast
qed

text \<open>
  C10 at a signed \<^verbatim>\<open>GET\<close> whose parameters are given in sorted order.
\<close>

theorem C10_witness:
  "config_url (makeRequest_config (\<lambda>key msg. [0xAB, 0x01])
      \<lparr> apiKey = ''K'', apiSecret = ''S'', baseURL = ''https://api.binance.com'' \<rparr> 1000
      ''GET'' ''/api/v3/allOrders'' [(''limit'', JNum 5), (''symbol'', JStr ''BTCUSDT'')] True)
    = ''https://api.binance.com/api/v3/allOrders?limit=5&symbol=BTCUSDT&timestamp=1000&signature=ab01''"
proof -
  let ?q = "[(''limit'', JNum 5), (''symbol'', JStr ''BTCUSDT'')]"
  have p: "set_prop ?q ''timestamp'' (JNum 1000) =
      [(''limit'', JNum 5), (''symbol'', JStr ''BTCUSDT''), (''timestamp'', JNum 1000)]"
    by (simp add: set_prop_def keys_def)
  have s: "sorted (keys (set_prop ?q ''timestamp'' (JNum 1000)))"
    unfolding p by (simp add: keys_def)
  have n: "''signature'' \<notin> set (keys ?q)" by (simp add: keys_def)
  have c: "signed_queryString [(''limit'', JNum 5), (''symbol'', JStr ''BTCUSDT''),
        (''timestamp'', JNum 1000)] = ''limit=5&symbol=BTCUSDT&timestamp=1000''"
    by code_simp
  have g: "generateSignature (\<lambda>key msg. [0xAB, 0x01])
      \<lparr> apiKey = ''K'', apiSecret = ''S'', baseURL = ''https://api.binance.com'' \<rparr>
      ''limit=5&symbol=BTCUSDT&timestamp=1000'' = ''ab01''"
    by code_simp
  from C10_query_string_keeps_enumeration_order [OF toLowerCase_GET,
      of "\<lambda>key msg. [0xAB, 0x01]"
         "\<lparr> apiKey = ''K'', apiSecret = ''S'', baseURL = ''https://api.binance.com'' \<rparr>"
         1000 "''/api/v3/allOrders''" ?q] s n
  have "config_url (makeRequest_config (\<lambda>key msg. [0xAB, 0x01])
      \<lparr> apiKey = ''K'', apiSecret = ''S'', baseURL = ''https://api.binance.com'' \<rparr> 1000
      ''GET'' ''/api/v3/allOrders'' ?q True) =
    baseURL \<lparr> apiKey = ''K'', apiSecret = ''S'', baseURL = ''https://api.binance.com'' \<rparr>
      @ ''/api/v3/allOrders'' @ ''?'' @
      signed_queryString (set_prop ?q ''timestamp'' (JNum 1000)) @ ''&signature='' @
      generateSignature (\<lambda>key msg. [0xAB, 0x01])
        \<lparr> apiKey = ''K'', apiSecret = ''S'', baseURL = ''https://api.binance.com'' \<rparr>
        (signed_queryString (set_prop ?q ''timestamp'' (JNum 1000)))"
    by blast
  then show ?thesis unfolding p c g by simp
qed

text \<open>
  Claim C10 as stated fails for keys that contain \<^verbatim>\<open>&\<close> and \<^verbatim>\<open>=\<close>: the two
  keys below are not in sorted order, and yet the query string sent is the
  signed canonical string followed by the signature. And a \<^verbatim>\<open>timestamp\<close> key
  supplied by the caller keeps its place, before the caller's later keys.
\<close>

theorem C10_counterexample:
  "\<not> sorted (keys (set_prop [(''a=&a'', JStr []), (''a'', JStr [])] ''timestamp'' (JNum 1000)))
   \<and> signed_queryString (set_prop [(''a=&a'', JStr []), (''a'', JStr [])] ''timestamp'' (JNum 1000))
       = ''a=&a=&a=&timestamp=1000''
   \<and> config_url (makeRequest_config (\<lambda>key msg. [0xAB, 0x01])
        \<lparr> apiKey = ''K'', apiSecret = ''S'', baseURL = ''https://api.binance.com'' \<rparr> 1000
        ''GET'' ''/api/v3/order'' [(''a=&a'', JStr []), (''a'', JStr [])] True)
       = ''https://api.binance.com/api/v3/order?a=&a=&a=&timestamp=1000&signature=ab01''
   \<and> keys (createSignedParams (\<lambda>key msg. [0xAB, 0x01])
        \<lparr> apiKey = ''K'', apiSecret = ''S'', baseURL = ''https://api.binance.com'' \<rparr> 1000
        [(''timestamp'', JNum 5), (''symbol'', JStr ''BTCUSDT'')])
       = [''timestamp'', ''symbol'', ''signature'']"
proof -
  let ?q = "[(''a=&a'', JStr []), (''a'', JStr [])]"
  have p: "set_prop ?q ''timestamp'' (JNum 1000) =
      [(''a=&a'', JStr []), (''a'', JStr []), (''timestamp'', JNum 1000)]"
    by (simp add: set_prop_def keys_def)
  have s: "\<not> sorted (keys (set_prop ?q ''timestamp'' (JNum 1000)))"
    unfolding p by (simp add: keys_def)
  have c: "signed_queryString [(''a=&a'', JStr []), (''a'', JStr []), (''timestamp'', JNum 1000)]
      = ''a=&a=&a=&timestamp=1000''"
    by code_simp
  have f: "createSignedParams (\<lambda>key msg. [0xAB, 0x01])
        \<lparr> apiKey = ''K'', apiSecret = ''S'', baseURL = ''https://api.binance.com'' \<rparr> 1000 ?q
      = [(''a=&a'', JStr []), (''a'', JStr []), (''timestamp'', JNum 1000),
         (''signature'', JStr ''ab01'')]"
    by code_simp
  have e: "render_query
       [(''a=&a'', JStr []), (''a'', JStr []), (''timestamp'', JNum 1000),
        (''signature'', JStr ''ab01'')]
       (keys [(''a=&a'', JStr []), (''a'', JStr []), (''timestamp'', JNum 1000),
        (''signature'', JStr ''ab01'')])
     = ''a=&a=&a=&timestamp=1000&signature=ab01''"
    by code_simp
  have u: "config_url (makeRequest_config (\<lambda>key msg. [0xAB, 0x01])
        \<lparr> apiKey = ''K'', apiSecret = ''S'', baseURL = ''https://api.binance.com'' \<rparr> 1000
        ''GET'' ''/api/v3/order'' ?q True)
       = ''https://api.binance.com/api/v3/order?a=&a=&a=&timestamp=1000&signature=ab01''"
    unfolding get_url_signed [OF toLowerCase_GET] f e by simp
  have k: "keys (createSignedParams (\<lambda>key msg. [0xAB, 0x01])
        \<lparr> apiKey = ''K'', apiSecret = ''S'', baseURL = ''https://api.binance.com'' \<rparr> 1000
        [(''timestamp'', JNum 5), (''symbol'', JStr ''BTCUSDT'')])
       = [''timestamp'', ''symbol'', ''signature'']"
    unfolding createSignedParams_eq by (simp add: keys_set_prop) (simp add: keys_def)
  from s c u k show ?thesis unfolding p by simp
qed

text \<open>
  Claim C5 at the fixture of the specification: the upstream answers a signed
  call with status 400 and body
  \<^verbatim>\<open>{code: -1021, msg: "Timestamp outside recvWindow"}\<close>, and the HTTP library
  rejects with an error that carries this response. \<^verbatim>\<open>errorHandler\<close> applied
  to that error answers as the claim says: status 400, \<^verbatim>\<open>Binance API Error\<close>,
  code -1021 and the upstream message. But the error reaches it only through
  the \<^verbatim>\<open>catch\<close> block of \<^verbatim>\<open>makeRequest\<close>, whose thrown object keeps the
  status, the code and the body and has neither a \<^verbatim>\<open>response\<close> nor a
  \<^verbatim>\<open>message\<close> property, and the route answers 400
  \<^verbatim>\<open>Internal Server Error\<close> with no code and no message.
\<close>

theorem C5_upstream_error_answered_as_internal_error:
  "route_account (\<lambda>key msg. [0xAB, 0x01])
      \<lparr> apiKey = ''K'', apiSecret = ''S'', baseURL = ''https://api.binance.com'' \<rparr> 1000
      (\<lambda>cfg. Inl (JObj [(''message'', JStr ''Request failed with status code 400''),
                        (''response'', JObj [(''status'', JNum 400),
                           (''data'', JObj [(''code'', JNum (- 1021)),
                                            (''msg'', JStr ''Timestamp outside recvWindow'')])])]))
      Map.empty ''2026-01-01T00:00:00.000Z''
    = \<lparr> status = JNum 400,
         json = JObj [(''error'', JStr ''Internal Server Error''),
                      (''message'', JUndefined),
                      (''timestamp'', JStr ''2026-01-01T00:00:00.000Z'')] \<rparr>
   \<and> makeRequest (\<lambda>key msg. [0xAB, 0x01])
      \<lparr> apiKey = ''K'', apiSecret = ''S'', baseURL = ''https://api.binance.com'' \<rparr> 1000
      (\<lambda>cfg. Inl (JObj [(''message'', JStr ''Request failed with status code 400''),
                        (''response'', JObj [(''status'', JNum 400),
                           (''data'', JObj [(''code'', JNum (- 1021)),
                                            (''msg'', JStr ''Timestamp outside recvWindow'')])])]))
      ''GET'' ''/api/v3/account'' [] True
    = Inl (JObj [(''success'', JBool False),
                 (''error'', JObj [(''code'', JNum (- 1021)),
                                   (''msg'', JStr ''Timestamp outside recvWindow'')]),
                 (''status'', JNum 400),
                 (''code'', JNum (- 1021))])
   \<and> errorHandler Map.empty ''2026-01-01T00:00:00.000Z''
      (JObj [(''message'', JStr ''Request failed with status code 400''),
             (''response'', JObj [(''status'', JNum 400),
                (''data'', JObj [(''code'', JNum (- 1021)),
                                 (''msg'', JStr ''Timestamp outside recvWindow'')])])])
    = \<lparr> status = JNum 400,
         json = JObj [(''error'', JStr ''Binance API Error''),
                      (''message'', JStr ''Timestamp outside recvWindow''),
                      (''code'', JNum (- 1021)),
                      (''timestamp'', JStr ''2026-01-01T00:00:00.000Z'')] \<rparr>"
  by (simp add: route_account_def makeRequest_def errorHandler_def js_or_def)

text \<open>
  Claim C6 at a refused connection. The HTTP library rejects with an error
  whose \<^verbatim>\<open>code\<close> is \<^verbatim>\<open>ECONNREFUSED\<close> and which has no response.
  \<^verbatim>\<open>errorHandler\<close> applied to that error answers 503
  \<^verbatim>\<open>Service Unavailable\<close>; but the error reaches it only through the
  \<^verbatim>\<open>catch\<close> block of \<^verbatim>\<open>makeRequest\<close>, which throws a new object with
  \<^verbatim>\<open>code: 'REQUEST_FAILED'\<close>, and the route answers 500
  \<^verbatim>\<open>Internal Server Error\<close> without a message.
\<close>

theorem C6_refused_connection_answered_as_internal_error:
  "route_account (\<lambda>key msg. [0xAB, 0x01])
      \<lparr> apiKey = ''K'', apiSecret = ''S'', baseURL = ''https://api.binance.com'' \<rparr> 1000
      (\<lambda>cfg. Inl (JObj [(''message'', JStr ''connect ECONNREFUSED 127.0.0.1:443''),
                        (''code'', JStr ''ECONNREFUSED'')]))
      Map.empty ''2026-01-01T00:00:00.000Z''
    = \<lparr> status = JNum 500,
         json = JObj [(''error'', JStr ''Internal Server Error''),
                      (''message'', JUndefined),
                      (''timestamp'', JStr ''2026-01-01T00:00:00.000Z'')] \<rparr>
   \<and> makeRequest (\<lambda>key msg. [0xAB, 0x01])
      \<lparr> apiKey = ''K'', apiSecret = ''S'', baseURL = ''https://api.binance.com'' \<rparr> 1000
      (\<lambda>cfg. Inl (JObj [(''message'', JStr ''connect ECONNREFUSED 127.0.0.1:443''),
                        (''code'', JStr ''ECONNREFUSED'')]))
      ''GET'' ''/api/v3/account'' [] True
    = Inl (JObj [(''success'', JBool False),
                 (''error'', JObj [(''msg'', JStr ''connect ECONNREFUSED 127.0.0.1:443'')]),
                 (''status'', JNum 500),
                 (''code'', JStr ''REQUEST_FAILED'')])
   \<and> errorHandler Map.empty ''2026-01-01T00:00:00.000Z''
      (JObj [(''message'', JStr ''connect ECONNREFUSED 127.0.0.1:443''),
             (''code'', JStr ''ECONNREFUSED'')])
    = \<lparr> status = JNum 503,
         json = JObj [(''error'', JStr ''Service Unavailable''),
                      (''message'', JStr ''Unable to connect to Binance API''),
                      (''code'', JStr ''CONNECTION_ERROR''),
                      (''timestamp'', JStr ''2026-01-01T00:00:00.000Z'')] \<rparr>"
  by (simp add: route_account_def makeRequest_def errorHandler_def js_or_def)

text \<open>
  Claim C7, amended. Every request description sets a timeout of 30000
  milliseconds. An error without a response whose \<^verbatim>\<open>code\<close> is neither
  \<^verbatim>\<open>ECONNREFUSED\<close> nor \<^verbatim>\<open>ENOTFOUND\<close>, which includes the library's timeout
  error (\<^verbatim>\<open>ECONNABORTED\<close>), has no classification of its own:
  \<^verbatim>\<open>errorHandler\<close> answers \<^verbatim>\<open>Internal Server Error\<close> with the error's status
  or 500, and \<^verbatim>\<open>makeRequest\<close> throws status 500 with code
  \<^verbatim>\<open>REQUEST_FAILED\<close> and the error's message.
\<close>

theorem C7_timeout_configured_and_reported_as_generic_failure:
  "config_timeout (makeRequest_config hmac this now method endpoint params requiresSignature)
     = 30000
   \<and> (\<not> truthy (js_get err ''response'')
        \<and> js_get err ''code'' \<noteq> JStr ''ECONNREFUSED''
        \<and> js_get err ''code'' \<noteq> JStr ''ENOTFOUND'' \<longrightarrow>
        errorHandler env isoNow err =
          \<lparr> status = (if truthy (js_get err ''status'') then js_get err ''status'' else JNum 500),
             json = JObj [(''error'', JStr ''Internal Server Error''),
                          (''message'', if env ''NODE_ENV'' = Some ''production''
                                        then JStr ''Something went wrong''
                                        else js_get err ''message''),
                          (''timestamp'', JStr isoNow)] \<rparr>)
   \<and> (axios (makeRequest_config hmac this now method endpoint params requiresSignature) = Inl err
        \<and> js_get err ''response'' = JUndefined \<longrightarrow>
        makeRequest hmac this now axios method endpoint params requiresSignature =
          Inl (JObj [(''success'', JBool False),
                     (''error'', JObj [(''msg'', js_get err ''message'')]),
                     (''status'', JNum 500),
                     (''code'', JStr ''REQUEST_FAILED'')]))"
  by (simp add: config_timeout_makeRequest_config errorHandler_def makeRequest_def js_or_def)

text \<open>
  C7 at the timeout error of the HTTP library.
\<close>

theorem C7_witness:
  "errorHandler Map.empty ''2026-01-01T00:00:00.000Z''
      (JObj [(''message'', JStr ''timeout of 30000ms exceeded''),
             (''code'', JStr ''ECONNABORTED'')])
    = \<lparr> status = JNum 500,
         json = JObj [(''error'', JStr ''Internal Server Error''),
                      (''message'', JStr ''timeout of 30000ms exceeded''),
                      (''timestamp'', JStr ''2026-01-01T00:00:00.000Z'')] \<rparr>"
proof -
  let ?err = "JObj [(''message'', JStr ''timeout of 30000ms exceeded''),
                    (''code'', JStr ''ECONNABORTED'')]"
  have "\<not> truthy (js_get ?err ''response'')
      \<and> js_get ?err ''code'' \<noteq> JStr ''ECONNREFUSED''
      \<and> js_get ?err ''code'' \<noteq> JStr ''ENOTFOUND''"
    by simp
  with C7_timeout_configured_and_reported_as_generic_failure
      [where err = ?err and env = Map.empty and isoNow = "''2026-01-01T00:00:00.000Z''"]
  have "errorHandler Map.empty ''2026-01-01T00:00:00.000Z'' ?err =
      \<lparr> status = (if truthy (js_get ?err ''status'') then js_get ?err ''status'' else JNum 500),
         json = JObj [(''error'', JStr ''Internal Server Error''),
                      (''message'', if Map.empty ''NODE_ENV'' = Some ''production''
                                    then JStr ''Something went wrong''
                                    else js_get ?err ''message''),
                      (''timestamp'', JStr ''2026-01-01T00:00:00.000Z'')] \<rparr>"
    by blast
  then show ?thesis by simp
qed

text \<open>
  Claim C7 as stated fails: a timeout is reported exactly as an unrelated
  transport failure is (here a connection reset), with the same label, status
  and code, so it is not a kind of its own.
\<close>

theorem C7_counterexample:
  "js_get (json (errorHandler Map.empty ''2026-01-01T00:00:00.000Z''
      (JObj [(''message'', JStr ''timeout of 30000ms exceeded''),
             (''code'', JStr ''ECONNABORTED'')]))) ''error'' = JStr ''Internal Server Error''
   \<and> js_get (json (errorHandler Map.empty ''2026-01-01T00:00:00.000Z''
      (JObj [(''message'', JStr ''socket hang up''),
             (''code'', JStr ''ECONNRESET'')]))) ''error'' = JStr ''Internal Server Error''
   \<and> status (errorHandler Map.empty ''2026-01-01T00:00:00.000Z''
      (JObj [(''message'', JStr ''timeout of 30000ms exceeded''),
             (''code'', JStr ''ECONNABORTED'')]))
     = status (errorHandler Map.empty ''2026-01-01T00:00:00.000Z''
      (JObj [(''message'', JStr ''socket hang up''),
             (''code'', JStr ''ECONNRESET'')]))
   \<and> makeRequest (\<lambda>key msg. [0xAB, 0x01])
      \<lparr> apiKey = ''K'', apiSecret = ''S'', baseURL = ''https://api.binance.com'' \<rparr> 1000
      (\<lambda>cfg. Inl (JObj [(''message'', JStr ''timeout of 30000ms exceeded''),
                        (''code'', JStr ''ECONNABORTED'')]))
      ''GET'' ''/api/v3/account'' [] True
    = Inl (JObj [(''success'', JBool False),
                 (''error'', JObj [(''msg'', JStr ''timeout of 30000ms exceeded'')]),
                 (''status'', JNum 500),
                 (''code'', JStr ''REQUEST_FAILED'')])"
  by (simp add: makeRequest_def errorHandler_def js_or_def)

end
